theory Spec2Isabelle
  imports Complex_Main
begin

section \<open>Functional calibration of body-worn orientation sensors (align.py)\<close>

text \<open>
  The development embeds \<^verbatim>\<open>source/align.py\<close>. NumPy's float64 arrays are read as exact
  reals: rounding is not modelled, so a statement proved here is a statement about the
  arithmetic the program performs, carried out without rounding error. The one IEEE effect
  the program can reach on exact data, the division of a zero vector by its zero norm, is
  kept: such an array is \<open>None\<close> below.

  A quaternion array row is a 4-tuple, a 3-vector a triple, a matrix a tuple of rows.
  A SciPy \<open>Rotation\<close> holding \<open>N\<close> rotations is the list of its unit quaternions in SciPy's
  scalar-last layout \<open>(x, y, z, w)\<close>.
\<close>

subsection \<open>Arrays\<close>

type_synonym vec3 = "real \<times> real \<times> real"
type_synonym quat = "real \<times> real \<times> real \<times> real"
type_synonym mat3 = "vec3 \<times> vec3 \<times> vec3"
type_synonym mat4 = "quat \<times> quat \<times> quat \<times> quat"

text \<open>
  What a call can end in besides a value. The first four are Python exceptions:
  \<open>TooFewDataPoints\<close> is the \<open>ValueError\<close> raised by \<open>find_rotation_axis\<close> itself (line 42),
  \<open>ZeroNormQuaternion\<close> the \<open>ValueError\<close> of \<open>Rotation.from_quat\<close> on a row of norm zero,
  \<open>RotationCountMismatch\<close> the \<open>ValueError\<close> of \<open>Rotation.__mul__\<close> on operands of different
  lengths (neither of length one), \<open>KeyError\<close> a missing dictionary key.
  \<open>NonFiniteMatrix\<close> is not an exception of the program: it marks that
  \<open>Rotation.from_matrix\<close> was handed a matrix of \<open>nan\<close> entries. What SciPy answers then
  depends on its version (a Rotation of \<open>nan\<close> entries, or an exception out of its own
  orthogonalisation); no frame comes out either way, and the embedding stops there.
\<close>

datatype failure =
    TooFewDataPoints
  | ZeroNormQuaternion
  | RotationCountMismatch
  | KeyError string
  | NonFiniteMatrix

definition bind :: "failure + 'a \<Rightarrow> ('a \<Rightarrow> failure + 'b) \<Rightarrow> failure + 'b" where
  "bind m f = (case m of Inl e \<Rightarrow> Inl e | Inr v \<Rightarrow> f v)"

fun vx :: "vec3 \<Rightarrow> real" where "vx (a, b, c) = a"
fun vy :: "vec3 \<Rightarrow> real" where "vy (a, b, c) = b"
fun vz :: "vec3 \<Rightarrow> real" where "vz (a, b, c) = c"

fun dot :: "vec3 \<Rightarrow> vec3 \<Rightarrow> real" where
  "dot (a1, a2, a3) (b1, b2, b3) = a1 * b1 + a2 * b2 + a3 * b3"

fun cross :: "vec3 \<Rightarrow> vec3 \<Rightarrow> vec3" where
  "cross (a1, a2, a3) (b1, b2, b3) =
     (a2 * b3 - a3 * b2, a3 * b1 - a1 * b3, a1 * b2 - a2 * b1)"

fun vscale :: "real \<Rightarrow> vec3 \<Rightarrow> vec3" where
  "vscale s (a, b, c) = (s * a, s * b, s * c)"

text \<open>\<open>np.linalg.norm\<close> of a 3-vector and of a quaternion row.\<close>

fun vnorm :: "vec3 \<Rightarrow> real" where
  "vnorm (a, b, c) = sqrt (a * a + b * b + c * c)"

fun qnorm :: "quat \<Rightarrow> real" where
  "qnorm (x, y, z, w) = sqrt (x * x + y * y + z * z + w * w)"

fun qscale :: "real \<Rightarrow> quat \<Rightarrow> quat" where
  "qscale s (x, y, z, w) = (s * x, s * y, s * z, s * w)"

text \<open>
  \<open>v / np.linalg.norm(v)\<close>. A float array that may hold \<open>nan\<close> is a \<open>vec3 option\<close>: dividing
  the zero vector by its zero norm raises nothing and gives \<open>nan\<close> in every entry, which is
  \<open>None\<close>; arithmetic on \<open>nan\<close> gives \<open>nan\<close>.
\<close>

definition unit_vector :: "vec3 \<Rightarrow> vec3 option" where
  "unit_vector v = (if vnorm v = 0 then None else Some (vscale (1 / vnorm v) v))"

text \<open>Product of a matrix (tuple of rows) with a column vector.\<close>

fun mat_vec :: "mat3 \<Rightarrow> vec3 \<Rightarrow> vec3" where
  "mat_vec (r0, r1, r2) v = (dot r0 v, dot r1 v, dot r2 v)"

subsection \<open>Quaternion layouts\<close>

text \<open>\<open>quat[..., [1, 2, 3, 0]]\<close> and \<open>quat[..., [3, 0, 1, 2]]\<close>.\<close>

fun to_scipy_quat :: "quat \<Rightarrow> quat" where
  "to_scipy_quat (q0, q1, q2, q3) = (q1, q2, q3, q0)"

fun to_wxyz_quat :: "quat \<Rightarrow> quat" where
  "to_wxyz_quat (q0, q1, q2, q3) = (q3, q0, q1, q2)"

subsection \<open>The operations of \<open>scipy.spatial.transform.Rotation\<close> the program calls\<close>

text \<open>
  \<open>Rotation.from_quat\<close> normalises every row and raises \<open>ValueError\<close> when a row has norm zero.
\<close>

definition qnormalize :: "quat \<Rightarrow> quat" where
  "qnormalize q = qscale (1 / qnorm q) q"

definition from_quat :: "quat list \<Rightarrow> failure + quat list" where
  "from_quat qs =
     (if list_ex (\<lambda>q. qnorm q = 0) qs then Inl ZeroNormQuaternion
      else Inr (map qnormalize qs))"

text \<open>\<open>Rotation.inv\<close>: the conjugate.\<close>

fun rot_inv :: "quat \<Rightarrow> quat" where
  "rot_inv (x, y, z, w) = (- x, - y, - z, w)"

text \<open>
  \<open>Rotation.__mul__\<close>: the Hamilton product \<open>p \<otimes> q\<close> (apply \<open>q\<close> first, then \<open>p\<close>), renormalised,
  row by row; an operand of length one is broadcast; other length mismatches raise.
\<close>

fun compose_quat :: "quat \<Rightarrow> quat \<Rightarrow> quat" where
  "compose_quat (px, py, pz, pw) (qx, qy, qz, qw) =
     (pw * qx + qw * px + (py * qz - pz * qy),
      pw * qy + qw * py + (pz * qx - px * qz),
      pw * qz + qw * pz + (px * qy - py * qx),
      pw * qw - (px * qx + py * qy + pz * qz))"

definition rot_mul :: "quat \<Rightarrow> quat \<Rightarrow> quat" where
  "rot_mul p q = qnormalize (compose_quat p q)"

definition rots_mul :: "quat list \<Rightarrow> quat list \<Rightarrow> failure + quat list" where
  "rots_mul ps qs =
     (if length ps = length qs then Inr (map2 rot_mul ps qs)
      else if length ps = 1 then Inr (map (rot_mul (hd ps)) qs)
      else if length qs = 1 then Inr (map (\<lambda>p. rot_mul p (hd qs)) ps)
      else Inl RotationCountMismatch)"

text \<open>\<open>np.arctan2(y, x)\<close>.\<close>

definition arctan2 :: "real \<Rightarrow> real \<Rightarrow> real" where
  "arctan2 y x =
     (if 0 < x then arctan (y / x)
      else if x < 0 then (if 0 \<le> y then arctan (y / x) + pi else arctan (y / x) - pi)
      else if 0 < y then pi / 2
      else if y < 0 then - (pi / 2)
      else 0)"

text \<open>
  \<open>Rotation.as_rotvec\<close>: the quaternion is first given a non-negative scalar part; the angle
  is \<open>2 * arctan2(|xyz|, w)\<close>; the vector part is scaled by \<open>angle / sin(angle / 2)\<close>, or by
  the series \<open>2 + angle\<^sup>2/12 + 7 angle\<^sup>4/2880\<close> when the angle is at most \<open>10\<^sup>-\<^sup>3\<close>.
\<close>

fun as_rotvec :: "quat \<Rightarrow> vec3" where
  "as_rotvec (x0, y0, z0, w0) =
     (let (x, y, z, w) = (if w0 < 0 then qscale (- 1) (x0, y0, z0, w0) else (x0, y0, z0, w0));
          angle = 2 * arctan2 (vnorm (x, y, z)) w;
          scale = (if angle \<le> 1 / 1000
                   then 2 + angle ^ 2 / 12 + 7 * angle ^ 4 / 2880
                   else angle / sin (angle / 2))
      in vscale scale (x, y, z))"

text \<open>\<open>Rotation.as_matrix\<close> and \<open>Rotation.apply\<close>.\<close>

fun as_matrix :: "quat \<Rightarrow> mat3" where
  "as_matrix (x, y, z, w) =
     ((x * x - y * y - z * z + w * w, 2 * (x * y - z * w), 2 * (x * z + y * w)),
      (2 * (x * y + z * w), - (x * x) + y * y - z * z + w * w, 2 * (y * z - x * w)),
      (2 * (x * z - y * w), 2 * (y * z + x * w), - (x * x) - y * y + z * z + w * w))"

definition rot_apply :: "quat \<Rightarrow> vec3 \<Rightarrow> vec3" where
  "rot_apply q v = mat_vec (as_matrix q) v"

subsection \<open>\<open>find_rotation_axis\<close>, steps 1 to 3: the relative angular velocity\<close>

text \<open>
  Lines 28 to 39. \<open>relative_rotation[:-1]\<close> is \<open>butlast\<close>, \<open>relative_rotation[1:]\<close> is \<open>tl\<close>.
\<close>

definition relative_rotation :: "quat list \<Rightarrow> quat list \<Rightarrow> failure + quat list" where
  "relative_rotation proximal_q distal_q =
     bind (from_quat (map to_scipy_quat proximal_q)) (\<lambda>prox_rot.
     bind (from_quat (map to_scipy_quat distal_q)) (\<lambda>dist_rot.
     rots_mul dist_rot (map rot_inv prox_rot)))"

definition relative_ang_vel :: "quat list \<Rightarrow> quat list \<Rightarrow> real \<Rightarrow> failure + vec3 list" where
  "relative_ang_vel proximal_q distal_q fs =
     bind (relative_rotation proximal_q distal_q) (\<lambda>rel.
     bind (rots_mul (map rot_inv (butlast rel)) (tl rel)) (\<lambda>delta_relative_rotation.
     Inr (map (\<lambda>d. vscale fs (as_rotvec d)) delta_relative_rotation)))"

subsection \<open>\<open>np.cov\<close>, \<open>np.linalg.eigh\<close> and \<open>Rotation.mean\<close>\<close>

text \<open>
  \<open>np.cov(relative_ang_vel.T)\<close>: the three components are the variables, each sample is an
  observation, and the sum of products of deviations is divided by \<open>n - 1\<close>.
\<close>

definition cov3 :: "vec3 list \<Rightarrow> mat3" where
  "cov3 ws =
     (let n = real (length ws);
          c = (\<lambda>f g. sum_list (map (\<lambda>v. (f v - sum_list (map f ws) / n) *
                                          (g v - sum_list (map g ws) / n)) ws) / (n - 1))
      in ((c vx vx, c vx vy, c vx vz),
          (c vy vx, c vy vy, c vy vz),
          (c vz vx, c vz vy, c vz vz)))"

text \<open>
  The symmetric eigen-solver \<open>np.linalg.eigh\<close> is LAPACK code outside the repository. It is a
  parameter of everything that calls it: \<open>eigh3\<close> for 3 by 3 input, \<open>eigh4\<close> for 4 by 4 input,
  each returning the pair \<open>(eigenvalues, eigenvectors)\<close>. The program reads the last column
  of \<open>eigenvectors\<close>, \<open>eigenvectors[:, -1]\<close>.
\<close>

type_synonym eigh3 = "mat3 \<Rightarrow> vec3 \<times> mat3"
type_synonym eigh4 = "mat4 \<Rightarrow> quat \<times> mat4"

fun last_col3 :: "mat3 \<Rightarrow> vec3" where
  "last_col3 ((a0, a1, a2), (b0, b1, b2), (c0, c1, c2)) = (a2, b2, c2)"

fun last_col4 :: "mat4 \<Rightarrow> quat" where
  "last_col4 ((a0, a1, a2, a3), (b0, b1, b2, b3), (c0, c1, c2, c3), (d0, d1, d2, d3)) =
     (a3, b3, c3, d3)"

fun qx :: "quat \<Rightarrow> real" where "qx (x, y, z, w) = x"
fun qy :: "quat \<Rightarrow> real" where "qy (x, y, z, w) = y"
fun qz :: "quat \<Rightarrow> real" where "qz (x, y, z, w) = z"
fun qw :: "quat \<Rightarrow> real" where "qw (x, y, z, w) = w"

text \<open>
  \<open>Rotation.mean\<close>: \<open>K = quat.T @ quat\<close>, the sum of the outer products of the quaternions,
  then \<open>eigh(K)\<close> and its last eigenvector, taken as it is (no renormalisation).
\<close>

definition outer_sum :: "quat list \<Rightarrow> mat4" where
  "outer_sum rs =
     (let k = (\<lambda>f g. sum_list (map (\<lambda>q. f q * g q) rs))
      in ((k qx qx, k qx qy, k qx qz, k qx qw),
          (k qy qx, k qy qy, k qy qz, k qy qw),
          (k qz qx, k qz qy, k qz qz, k qz qw),
          (k qw qx, k qw qy, k qw qz, k qw qw)))"

definition rot_mean :: "eigh4 \<Rightarrow> quat list \<Rightarrow> quat" where
  "rot_mean eigh rs = last_col4 (snd (eigh (outer_sum rs)))"

subsection \<open>\<open>find_rotation_axis\<close>\<close>

text \<open>
  Lines 41 to 56. The relative rotation is formed a second time for the mean (line 52).
  The two axes come back as arrays that may hold \<open>nan\<close>.
\<close>

definition find_rotation_axis ::
  "eigh3 \<Rightarrow> eigh4 \<Rightarrow> quat list \<Rightarrow> quat list \<Rightarrow> real \<Rightarrow> failure + (vec3 option \<times> vec3 option)" where
  "find_rotation_axis eigh_a eigh_b proximal_q distal_q fs =
     bind (relative_ang_vel proximal_q distal_q fs) (\<lambda>relative_ang_vel.
       if length relative_ang_vel < 2 then Inl TooFewDataPoints
       else
         let covariance_matrix = cov3 relative_ang_vel;
             (eigenvalues, eigenvectors) = eigh_a covariance_matrix;
             axis_p = last_col3 eigenvectors
         in bind (relative_rotation proximal_q distal_q) (\<lambda>rel.
              let mean_relative_rotation = rot_mean eigh_b rel;
                  axis_d = rot_apply mean_relative_rotation axis_p
              in Inr (unit_vector axis_p, unit_vector axis_d)))"

subsection \<open>\<open>create_anatomical_frame\<close>\<close>

text \<open>
  \<open>Rotation.from_matrix\<close> on a proper rotation matrix, which is all the program hands it
  whenever the entries are finite: the largest of the three diagonal entries and the trace
  (\<open>argmax\<close>, the first index on a tie) selects one of four formulas, and the result is
  normalised. \<open>Rotation.as_quat\<close> gives back the stored quaternion.
\<close>

fun quat_of_matrix :: "mat3 \<Rightarrow> quat" where
  "quat_of_matrix ((m00, m01, m02), (m10, m11, m12), (m20, m21, m22)) =
     (let t = m00 + m11 + m22
      in qnormalize
        (if m00 \<ge> m11 \<and> m00 \<ge> m22 \<and> m00 \<ge> t
           then (1 - t + 2 * m00, m10 + m01, m20 + m02, m21 - m12)
         else if m11 \<ge> m22 \<and> m11 \<ge> t
           then (m01 + m10, 1 - t + 2 * m11, m21 + m12, m02 - m20)
         else if m22 \<ge> t
           then (m02 + m20, m12 + m21, 1 - t + 2 * m22, m10 - m01)
         else (m21 - m12, m02 - m20, m10 - m01, 1 + t)))"

definition from_matrix :: "mat3 option \<Rightarrow> failure + quat" where
  "from_matrix m = (case m of None \<Rightarrow> Inl NonFiniteMatrix | Some a \<Rightarrow> Inr (quat_of_matrix a))"

text \<open>\<open>np.cross\<close> on arrays that may hold \<open>nan\<close>.\<close>

definition nan_cross :: "vec3 option \<Rightarrow> vec3 option \<Rightarrow> vec3 option" where
  "nan_cross a b = Option.bind a (\<lambda>u. Option.bind b (\<lambda>v. Some (cross u v)))"

text \<open>\<open>np.array([x_axis, y_axis, z_axis]).T\<close>: the three axes are the columns.\<close>

fun columns :: "vec3 \<Rightarrow> vec3 \<Rightarrow> vec3 \<Rightarrow> mat3" where
  "columns (x0, x1, x2) (y0, y1, y2) (z0, z1, z2) = ((x0, y0, z0), (x1, y1, z1), (x2, y2, z2))"


definition rotation_matrix :: "vec3 option \<Rightarrow> vec3 option \<Rightarrow> mat3 option" where
  "rotation_matrix primary_axis longitudinal_axis =
     (let x_axis = Option.bind primary_axis unit_vector;
          z_axis_temp = nan_cross x_axis longitudinal_axis;
          z_axis = Option.bind z_axis_temp unit_vector;
          y_axis = Option.bind (nan_cross z_axis x_axis) unit_vector
      in Option.bind x_axis (\<lambda>x. Option.bind y_axis (\<lambda>y. Option.bind z_axis (\<lambda>z.
           Some (columns x y z)))))"

definition create_anatomical_frame :: "vec3 option \<Rightarrow> vec3 option \<Rightarrow> failure + quat" where
  "create_anatomical_frame primary_axis longitudinal_axis =
     from_matrix (rotation_matrix primary_axis longitudinal_axis)"

subsection \<open>\<open>perform_calibration\<close>\<close>

text \<open>
  A trial dictionary maps a sensor name to its quaternion stream. The function returns the
  dictionary of calibration quaternions; what it prints, one dot product for each side, is
  returned beside it.
\<close>

type_synonym trial = "string \<rightharpoonup> quat list"

definition lookup :: "(string \<rightharpoonup> 'a) \<Rightarrow> string \<Rightarrow> failure + 'a" where
  "lookup d k = (case d k of None \<Rightarrow> Inl (KeyError k) | Some v \<Rightarrow> Inr v)"

definition global_up_vector :: vec3 where
  "global_up_vector = (0, 1, 0)"

text \<open>\<open>Rotation.from_quat(to_scipy_quat(q_static)).mean()\<close> and the longitudinal axis from it.\<close>

definition static_mean :: "eigh4 \<Rightarrow> quat list \<Rightarrow> failure + quat" where
  "static_mean eigh_b q_static =
     bind (from_quat (map to_scipy_quat q_static)) (\<lambda>rot. Inr (rot_mean eigh_b rot))"

definition long_axis :: "quat \<Rightarrow> vec3" where
  "long_axis rot_static_mean = rot_apply (rot_inv rot_static_mean) global_up_vector"

definition nan_dot :: "vec3 option \<Rightarrow> vec3 option \<Rightarrow> real option" where
  "nan_dot a b = Option.bind a (\<lambda>u. Option.bind b (\<lambda>v. Some (dot u v)))"

text \<open>The body of the loop over the sides, lines 114 to 170.\<close>

definition calibrate_side ::
  "eigh3 \<Rightarrow> eigh4 \<Rightarrow> trial \<Rightarrow> trial \<Rightarrow> trial \<Rightarrow> trial \<Rightarrow> real \<Rightarrow> string \<Rightarrow>
   real option list \<times> (string \<rightharpoonup> quat) \<Rightarrow> failure + (real option list \<times> (string \<rightharpoonup> quat))" where
  "calibrate_side eigh_a eigh_b static_data hip_data knee_data ankle_data fs side st =
     bind (lookup static_data (side @ ''_thigh'')) (\<lambda>thigh_q_static.
     bind (lookup static_data (side @ ''_shank'')) (\<lambda>shank_q_static.
     bind (lookup static_data (side @ ''_foot'')) (\<lambda>foot_q_static.
     bind (static_mean eigh_b thigh_q_static) (\<lambda>thigh_rot_static_mean.
     bind (static_mean eigh_b shank_q_static) (\<lambda>shank_rot_static_mean.
     bind (static_mean eigh_b foot_q_static) (\<lambda>foot_rot_static_mean.
     let thigh_long_axis = long_axis thigh_rot_static_mean;
         shank_long_axis = long_axis shank_rot_static_mean;
         foot_long_axis = long_axis foot_rot_static_mean
     in
     bind (lookup knee_data (side @ ''_thigh'')) (\<lambda>knee_thigh_q.
     bind (lookup knee_data (side @ ''_shank'')) (\<lambda>knee_shank_q.
     bind (find_rotation_axis eigh_a eigh_b knee_thigh_q knee_shank_q fs)
       (\<lambda>(knee_axis_thigh, knee_axis_shank).
     bind (lookup hip_data (side @ ''_thigh'')) (\<lambda>hip_thigh_q.
     bind (find_rotation_axis eigh_a eigh_b
             (replicate (length hip_thigh_q) (1, 0, 0, 0)) hip_thigh_q fs)
       (\<lambda>(hip_axis_thigh, _).
     bind (lookup ankle_data (side @ ''_shank'')) (\<lambda>ankle_shank_q.
     bind (lookup ankle_data (side @ ''_foot'')) (\<lambda>ankle_foot_q.
     bind (find_rotation_axis eigh_a eigh_b ankle_shank_q ankle_foot_q fs)
       (\<lambda>(ankle_axis_shank, ankle_axis_foot).
     let printed = fst st @ [nan_dot knee_axis_thigh hip_axis_thigh];
         thigh_ml_axis = knee_axis_thigh
     in
     bind (create_anatomical_frame thigh_ml_axis (Some thigh_long_axis)) (\<lambda>thigh_cal_rot.
     let shank_ml_axis = knee_axis_shank in
     bind (create_anatomical_frame shank_ml_axis (Some shank_long_axis)) (\<lambda>shank_cal_rot.
     let foot_ml_axis = ankle_axis_foot in
     bind (create_anatomical_frame foot_ml_axis (Some foot_long_axis)) (\<lambda>foot_cal_rot.
     Inr (printed,
          (snd st)(side @ ''_thigh'' \<mapsto> to_wxyz_quat thigh_cal_rot,
                   side @ ''_shank'' \<mapsto> to_wxyz_quat shank_cal_rot,
                   side @ ''_foot'' \<mapsto> to_wxyz_quat foot_cal_rot)))))))))))))))))))"

fun calibrate_sides ::
  "eigh3 \<Rightarrow> eigh4 \<Rightarrow> trial \<Rightarrow> trial \<Rightarrow> trial \<Rightarrow> trial \<Rightarrow> real \<Rightarrow> string list \<Rightarrow>
   real option list \<times> (string \<rightharpoonup> quat) \<Rightarrow> failure + (real option list \<times> (string \<rightharpoonup> quat))" where
  "calibrate_sides eigh_a eigh_b static_data hip_data knee_data ankle_data fs [] st = Inr st"
| "calibrate_sides eigh_a eigh_b static_data hip_data knee_data ankle_data fs (side # sides) st =
     bind (calibrate_side eigh_a eigh_b static_data hip_data knee_data ankle_data fs side st)
          (calibrate_sides eigh_a eigh_b static_data hip_data knee_data ankle_data fs sides)"

definition perform_calibration ::
  "eigh3 \<Rightarrow> eigh4 \<Rightarrow> trial \<Rightarrow> trial \<Rightarrow> trial \<Rightarrow> trial \<Rightarrow> real \<Rightarrow>
   failure + (real option list \<times> (string \<rightharpoonup> quat))" where
  "perform_calibration eigh_a eigh_b static_data hip_data knee_data ankle_data fs =
     calibrate_sides eigh_a eigh_b static_data hip_data knee_data ankle_data fs
       [''left'', ''right''] ([], Map.empty)"

subsection \<open>Derived notions used in the statements\<close>

text \<open>
  The relative rotations written out: \<open>rel[i] = distal[i] * inverse(proximal[i])\<close> on the
  normalised inputs.
\<close>

definition rel_of :: "quat list \<Rightarrow> quat list \<Rightarrow> quat list" where
  "rel_of proximal_q distal_q =
     map2 rot_mul (map (\<lambda>q. qnormalize (to_scipy_quat q)) distal_q)
                  (map (\<lambda>q. rot_inv (qnormalize (to_scipy_quat q))) proximal_q)"

text \<open>What \<open>perform_calibration\<close> returns, without what it printed.\<close>

definition returned :: "failure + ('p \<times> 'd) \<Rightarrow> failure + 'd" where
  "returned r = (case r of Inl e \<Rightarrow> Inl e | Inr out \<Rightarrow> Inr (snd out))"

text \<open>
  A hip trial that lets \<open>find_rotation_axis\<close> run to its end for one side: the thigh stream
  is there, has at least three samples and no quaternion of norm zero.
\<close>

definition hip_stream_ok :: "trial \<Rightarrow> string \<Rightarrow> bool" where
  "hip_stream_ok hip_data side =
     (case hip_data (side @ ''_thigh'') of None \<Rightarrow> False
      | Some h \<Rightarrow> 3 \<le> length h \<and> list_all (\<lambda>q. qnorm q \<noteq> 0) h)"

subsection \<open>Applying a calibration (the script's last step)\<close>

text \<open>
  Lines 252 to 259, on one raw quaternion and one calibration quaternion, both \<open>[w, x, y, z]\<close>:
  \<open>Rotation.from_quat\<close> of a single row, then \<open>raw_rot * cal_rot.inv()\<close>.
\<close>

definition from_quat_single :: "quat \<Rightarrow> failure + quat" where
  "from_quat_single q = (if qnorm q = 0 then Inl ZeroNormQuaternion else Inr (qnormalize q))"

definition anatomical_rot :: "quat \<Rightarrow> quat \<Rightarrow> failure + quat" where
  "anatomical_rot raw_q q_cal =
     bind (from_quat_single (to_scipy_quat raw_q)) (\<lambda>raw_rot.
     bind (from_quat_single (to_scipy_quat q_cal)) (\<lambda>cal_rot.
     Inr (rot_mul raw_rot (rot_inv cal_rot))))"

subsection \<open>What \<open>np.linalg.eigh\<close> promises\<close>

text \<open>
  NumPy documents \<open>eigh\<close> as returning the eigenvalues in ascending order and, in column \<open>i\<close> of
  \<open>eigenvectors\<close>, the normalised eigenvector of eigenvalue \<open>i\<close>; for a real symmetric matrix
  the columns are orthonormal. \<open>eigh3_ok m r\<close> says that the answer \<open>r\<close> keeps this promise on
  the matrix \<open>m\<close>. It is a hypothesis of the statements that need it, never a definition of
  the solver.
\<close>

fun transpose3 :: "mat3 \<Rightarrow> mat3" where
  "transpose3 ((a0, a1, a2), (b0, b1, b2), (c0, c1, c2)) =
     ((a0, b0, c0), (a1, b1, c1), (a2, b2, c2))"

definition eigh3_ok :: "mat3 \<Rightarrow> vec3 \<times> mat3 \<Rightarrow> bool" where
  "eigh3_ok m r =
     (case r of ((l0, l1, l2), v) \<Rightarrow>
      (case transpose3 v of (c0, c1, c2) \<Rightarrow>
         l0 \<le> l1 \<and> l1 \<le> l2 \<and>
         mat_vec m c0 = vscale l0 c0 \<and> mat_vec m c1 = vscale l1 c1 \<and>
         mat_vec m c2 = vscale l2 c2 \<and>
         dot c0 c0 = 1 \<and> dot c1 c1 = 1 \<and> dot c2 c2 = 1 \<and>
         dot c0 c1 = 0 \<and> dot c0 c2 = 0 \<and> dot c1 c2 = 0))"

text \<open>The same promise for the 4 by 4 matrix of \<open>Rotation.mean\<close>.\<close>

fun qdot :: "quat \<Rightarrow> quat \<Rightarrow> real" where
  "qdot (a0, a1, a2, a3) (b0, b1, b2, b3) = a0 * b0 + a1 * b1 + a2 * b2 + a3 * b3"

fun mat4_vec :: "mat4 \<Rightarrow> quat \<Rightarrow> quat" where
  "mat4_vec (r0, r1, r2, r3) q = (qdot r0 q, qdot r1 q, qdot r2 q, qdot r3 q)"

fun transpose4 :: "mat4 \<Rightarrow> mat4" where
  "transpose4 ((a0, a1, a2, a3), (b0, b1, b2, b3), (c0, c1, c2, c3), (d0, d1, d2, d3)) =
     ((a0, b0, c0, d0), (a1, b1, c1, d1), (a2, b2, c2, d2), (a3, b3, c3, d3))"

definition eigh4_ok :: "mat4 \<Rightarrow> quat \<times> mat4 \<Rightarrow> bool" where
  "eigh4_ok k r =
     (case r of ((l0, l1, l2, l3), v) \<Rightarrow>
      (case transpose4 v of (c0, c1, c2, c3) \<Rightarrow>
         l0 \<le> l1 \<and> l1 \<le> l2 \<and> l2 \<le> l3 \<and>
         mat4_vec k c0 = qscale l0 c0 \<and> mat4_vec k c1 = qscale l1 c1 \<and>
         mat4_vec k c2 = qscale l2 c2 \<and> mat4_vec k c3 = qscale l3 c3 \<and>
         qdot c0 c0 = 1 \<and> qdot c1 c1 = 1 \<and> qdot c2 c2 = 1 \<and> qdot c3 c3 = 1 \<and>
         qdot c0 c1 = 0 \<and> qdot c0 c2 = 0 \<and> qdot c0 c3 = 0 \<and>
         qdot c1 c2 = 0 \<and> qdot c1 c3 = 0 \<and> qdot c2 c3 = 0))"

subsection \<open>\<open>Rotation.as_euler('xyz', degrees=True)\<close>\<close>

text \<open>
  SciPy reads a lower-case axis sequence as extrinsic rotations (about the fixed axes) and
  an upper-case one as intrinsic rotations. For \<open>'xyz'\<close> the angles are read off the rotation
  matrix \<open>m\<close>: the second angle is \<open>arccos(m20) - pi/2\<close>, the first \<open>arctan2(m21, m22)\<close>, the
  third \<open>arctan2(m10, m00)\<close>. Within \<open>10\<^sup>-\<^sup>7\<close> of gimbal lock (second angle at \<open>\<plusminus> pi/2\<close>) the
  third angle is set to zero and the first takes the whole turn about the common axis.
  \<open>degrees=True\<close> converts the result with \<open>np.rad2deg\<close>.
\<close>

definition gimbal_lock :: "quat \<Rightarrow> bool" where
  "gimbal_lock q =
     (case as_matrix q of ((m00, m01, m02), (m10, m11, m12), (m20, m21, m22)) \<Rightarrow>
        \<not> (\<bar>arccos m20\<bar> \<ge> 1 / 10000000 \<and> \<bar>arccos m20 - pi\<bar> \<ge> 1 / 10000000))"

definition as_euler_xyz :: "quat \<Rightarrow> vec3" where
  "as_euler_xyz q =
     (case as_matrix q of ((m00, m01, m02), (m10, m11, m12), (m20, m21, m22)) \<Rightarrow>
        let safe1 = (\<bar>arccos m20\<bar> \<ge> 1 / 10000000);
            safe2 = (\<bar>arccos m20 - pi\<bar> \<ge> 1 / 10000000);
            second = arccos m20 - pi / 2
        in if safe1 \<and> safe2 then (arctan2 m21 m22, second, arctan2 m10 m00)
           else if \<not> safe1 then (arctan2 (- m01 - m12) (m11 - m02), second, 0)
           else (- arctan2 (- m01 + m12) (m11 + m02), second, 0))"

definition rad2deg :: "real \<Rightarrow> real" where
  "rad2deg a = a * 180 / pi"

definition as_euler_xyz_degrees :: "quat \<Rightarrow> vec3" where
  "as_euler_xyz_degrees q =
     (case as_euler_xyz q of (a, b, c) \<Rightarrow> (rad2deg a, rad2deg b, rad2deg c))"

text \<open>
  Lines 252 to 260 together: the calibrated quaternion \<open>q_anatomical\<close> in \<open>[w, x, y, z]\<close> and
  \<open>anatomical_euler_angles\<close>.
\<close>

definition apply_calibration :: "quat \<Rightarrow> quat \<Rightarrow> failure + (quat \<times> vec3)" where
  "apply_calibration raw_q q_cal =
     bind (anatomical_rot raw_q q_cal) (\<lambda>rot.
       Inr (to_wxyz_quat rot, as_euler_xyz_degrees rot))"

subsection \<open>Euler angle conventions\<close>

text \<open>
  The elementary rotations, and the two ways to compose three of them about \<open>x\<close>, \<open>y\<close>, \<open>z\<close>:
  extrinsic (each about a fixed axis, so the matrices multiply from the left:
  \<open>Rz(c) Ry(b) Rx(a)\<close>) and intrinsic (each about the axis as the earlier rotations have turned
  it: \<open>Rx(a) Ry(b) Rz(c)\<close>).
\<close>

fun mat_mul :: "mat3 \<Rightarrow> mat3 \<Rightarrow> mat3" where
  "mat_mul (r0, r1, r2) b =
     (case transpose3 b of (c0, c1, c2) \<Rightarrow>
        ((dot r0 c0, dot r0 c1, dot r0 c2),
         (dot r1 c0, dot r1 c1, dot r1 c2),
         (dot r2 c0, dot r2 c1, dot r2 c2)))"

definition rot_x :: "real \<Rightarrow> mat3" where
  "rot_x a = ((1, 0, 0), (0, cos a, - sin a), (0, sin a, cos a))"

definition rot_y :: "real \<Rightarrow> mat3" where
  "rot_y b = ((cos b, 0, sin b), (0, 1, 0), (- sin b, 0, cos b))"

definition rot_z :: "real \<Rightarrow> mat3" where
  "rot_z c = ((cos c, - sin c, 0), (sin c, cos c, 0), (0, 0, 1))"

definition extrinsic_xyz :: "vec3 \<Rightarrow> mat3" where
  "extrinsic_xyz angles =
     (case angles of (a, b, c) \<Rightarrow> mat_mul (rot_z c) (mat_mul (rot_y b) (rot_x a)))"

definition intrinsic_xyz :: "vec3 \<Rightarrow> mat3" where
  "intrinsic_xyz angles =
     (case angles of (a, b, c) \<Rightarrow> mat_mul (rot_x a) (mat_mul (rot_y b) (rot_z c)))"

definition deg2rad :: "real \<Rightarrow> real" where
  "deg2rad a = a * pi / 180"

subsection \<open>Changing the input streams\<close>

text \<open>
  A stream sample \<open>q\<close> is \<open>[w, x, y, z]\<close>; a constant rotation \<open>c\<close> is a unit quaternion in
  SciPy's layout. \<open>left_composed c q\<close> is the sample of the rotation \<open>c * q\<close>, that is \<open>c\<close>
  composed with \<open>q\<close>; \<open>right_composed c q\<close> is the sample of \<open>q * c\<close>.
\<close>

definition left_composed :: "quat \<Rightarrow> quat \<Rightarrow> quat" where
  "left_composed c q = to_wxyz_quat (compose_quat c (to_scipy_quat q))"

definition right_composed :: "quat \<Rightarrow> quat \<Rightarrow> quat" where
  "right_composed c q = to_wxyz_quat (compose_quat (to_scipy_quat q) c)"



text \<open>Two quaternions that are equal or opposite: the same rotation.\<close>

definition same_rotation :: "quat \<Rightarrow> quat \<Rightarrow> bool" where
  "same_rotation a b \<longleftrightarrow> b = a \<or> b = qscale (- 1) a"

subsection \<open>Answers of an eigen-solver on the matrices of the examples\<close>

text \<open>
  The examples below need what \<open>np.linalg.eigh\<close> answers on a few matrices. These functions
  give a correct answer on the matrices that occur there (each example states
  \<open>eigh3_ok\<close> or \<open>eigh4_ok\<close> for it): a 3 by 3 matrix \<open>diag(a, 0, 0)\<close> or \<open>diag(0, a, 0)\<close> with
  \<open>a \<ge> 0\<close>; a 3 by 3 matrix with the block \<open>((p, q), (q, p))\<close>, \<open>p \<ge> |q|\<close>, and zeros elsewhere;
  a diagonal 4 by 4 matrix whose largest entry is the first or the second and whose third
  entry is at most the fourth.
\<close>

fun eigh_axis_example :: eigh3 where
  "eigh_axis_example ((m00, m01, m02), (m10, m11, m12), r2) =
     (if m11 \<le> m00 then ((0, 0, m00), ((0, 0, 1), (1, 0, 0), (0, 1, 0)))
      else ((0, 0, m11), ((1, 0, 0), (0, 0, 1), (0, 1, 0))))"


fun eigh_mean_example :: eigh4 where
  "eigh_mean_example ((k00, a1, a2, a3), (b0, k11, b2, b3), (c0, c1, k22, c3), (d0, d1, d2, k33)) =
     (if k11 \<le> k00
      then ((k11, k22, k33, k00), ((0, 0, 0, 1), (1, 0, 0, 0), (0, 1, 0, 0), (0, 0, 1, 0)))
      else ((k00, k22, k33, k11), ((1, 0, 0, 0), (0, 0, 0, 1), (0, 1, 0, 0), (0, 0, 1, 0))))"

section \<open>Properties\<close>

subsection \<open>Running \<open>find_rotation_axis\<close> on well-formed streams\<close>

lemma bind_Inr [simp]: "bind (Inr v) f = f v"
  by (simp add: bind_def)

lemma bind_Inl [simp]: "bind (Inl e) f = Inl e"
  by (simp add: bind_def)

lemma returned_simps [simp]: "returned (Inl e) = Inl e" "returned (Inr out) = Inr (snd out)"
  by (simp_all add: returned_def)

lemma qnorm_to_scipy_quat: "qnorm (to_scipy_quat q) = qnorm q"
  by (cases q) (simp add: add.commute add.left_commute)

lemma from_quat_scipy:
  "\<forall>q\<in>set qs. qnorm q \<noteq> 0 \<Longrightarrow>
   from_quat (map to_scipy_quat qs) = Inr (map (\<lambda>q. qnormalize (to_scipy_quat q)) qs)"
  by (simp add: from_quat_def list_ex_iff qnorm_to_scipy_quat)

lemma rots_mul_same_length:
  "length ps = length qs \<Longrightarrow> rots_mul ps qs = Inr (map2 rot_mul ps qs)"
  by (simp add: rots_mul_def)

lemma relative_rotation_ok:
  assumes "length proximal_q = length distal_q"
    and "\<forall>q\<in>set proximal_q. qnorm q \<noteq> 0" and "\<forall>q\<in>set distal_q. qnorm q \<noteq> 0"
  shows "relative_rotation proximal_q distal_q = Inr (rel_of proximal_q distal_q)"
  using assms
  by (simp add: relative_rotation_def from_quat_scipy rots_mul_same_length rel_of_def o_def)

lemma length_rel_of:
  "length proximal_q = length distal_q \<Longrightarrow> length (rel_of proximal_q distal_q) = length distal_q"
  by (simp add: rel_of_def)

lemma relative_ang_vel_ok:
  assumes "length proximal_q = length distal_q"
    and "\<forall>q\<in>set proximal_q. qnorm q \<noteq> 0" and "\<forall>q\<in>set distal_q. qnorm q \<noteq> 0"
  shows "relative_ang_vel proximal_q distal_q fs =
     Inr (map (\<lambda>d. vscale fs (as_rotvec d))
        (map2 rot_mul (map rot_inv (butlast (rel_of proximal_q distal_q)))
                      (tl (rel_of proximal_q distal_q))))"
  using assms
  by (simp add: relative_ang_vel_def relative_rotation_ok rots_mul_same_length)

lemma find_rotation_axis_Inr:
  assumes "length proximal_q = length distal_q" "3 \<le> length distal_q"
    and "\<forall>q\<in>set proximal_q. qnorm q \<noteq> 0" and "\<forall>q\<in>set distal_q. qnorm q \<noteq> 0"
  shows "\<exists>a b. find_rotation_axis eigh_a eigh_b proximal_q distal_q fs = Inr (a, b)"
  using assms
  by (auto simp add: find_rotation_axis_def relative_ang_vel_ok relative_rotation_ok
        length_rel_of Let_def case_prod_beta)


subsection \<open>The relative angular velocity\<close>



subsection \<open>Too few samples\<close>

text \<open>
  Claim C4. For two streams of the same length \<open>N\<close> (no quaternion of norm zero),
  \<open>find_rotation_axis\<close> raises its \<open>ValueError\<close> for too few data points exactly when
  \<open>N - 1 < 2\<close>, and returns a pair of axes exactly when it does not; so \<open>N = 2\<close> raises and
  gives no axes. This holds for every \<open>fs\<close> and whatever the eigen-solver answers.
\<close>

theorem C4_too_few_data_points:
  assumes "length proximal_q = length distal_q"
    and "\<forall>q\<in>set proximal_q. qnorm q \<noteq> 0" and "\<forall>q\<in>set distal_q. qnorm q \<noteq> 0"
  shows "(find_rotation_axis eigh_a eigh_b proximal_q distal_q fs = Inl TooFewDataPoints
            \<longleftrightarrow> int (length proximal_q) - 1 < 2)
       \<and> ((\<exists>axes. find_rotation_axis eigh_a eigh_b proximal_q distal_q fs = Inr axes)
            \<longleftrightarrow> \<not> int (length proximal_q) - 1 < 2)"
proof -
  let ?w = "map (\<lambda>d. vscale fs (as_rotvec d))
        (map2 rot_mul (map rot_inv (butlast (rel_of proximal_q distal_q)))
                      (tl (rel_of proximal_q distal_q)))"
  have len: "length ?w = length proximal_q - 1"
    using assms(1) by (simp add: length_rel_of)
  show ?thesis
  proof (cases "length ?w < 2")
    case True
    then have "find_rotation_axis eigh_a eigh_b proximal_q distal_q fs = Inl TooFewDataPoints"
      using assms by (simp add: find_rotation_axis_def relative_ang_vel_ok)
    moreover have "int (length proximal_q) - 1 < 2" using True len by linarith
    ultimately show ?thesis by simp
  next
    case False
    then have "\<exists>axes. find_rotation_axis eigh_a eigh_b proximal_q distal_q fs = Inr axes"
      using assms
      by (simp add: find_rotation_axis_def relative_ang_vel_ok relative_rotation_ok Let_def
            split: prod.splits)
    moreover have "\<not> int (length proximal_q) - 1 < 2" using False len by linarith
    ultimately show ?thesis by auto
  qed
qed

theorem C4_too_few_data_points_witness:
  "find_rotation_axis (\<lambda>m. ((0, 0, 0), ((1, 0, 0), (0, 1, 0), (0, 0, 1))))
       (\<lambda>m. ((0, 0, 0, 0), ((1, 0, 0, 0), (0, 1, 0, 0), (0, 0, 1, 0), (0, 0, 0, 1))))
       [(1, 0, 0, 0), (1, 0, 0, 0)] [(1, 0, 0, 0), (0, 1, 0, 0)] 100 = Inl TooFewDataPoints
   \<and> (\<exists>axes. find_rotation_axis (\<lambda>m. ((0, 0, 0), ((1, 0, 0), (0, 1, 0), (0, 0, 1))))
       (\<lambda>m. ((0, 0, 0, 0), ((1, 0, 0, 0), (0, 1, 0, 0), (0, 0, 1, 0), (0, 0, 0, 1))))
       [(1, 0, 0, 0), (1, 0, 0, 0), (1, 0, 0, 0)] [(1, 0, 0, 0), (0, 1, 0, 0), (0, 1, 0, 0)] 100
         = Inr axes)"
  using C4_too_few_data_points
          [of "[(1, 0, 0, 0), (1, 0, 0, 0)]" "[(1, 0, 0, 0), (0, 1, 0, 0)]"
              "\<lambda>m. ((0, 0, 0), ((1, 0, 0), (0, 1, 0), (0, 0, 1)))"
              "\<lambda>m. ((0, 0, 0, 0), ((1, 0, 0, 0), (0, 1, 0, 0), (0, 0, 1, 0), (0, 0, 0, 1)))" 100]
        C4_too_few_data_points
          [of "[(1, 0, 0, 0), (1, 0, 0, 0), (1, 0, 0, 0)]"
              "[(1, 0, 0, 0), (0, 1, 0, 0), (0, 1, 0, 0)]"
              "\<lambda>m. ((0, 0, 0), ((1, 0, 0), (0, 1, 0), (0, 0, 1)))"
              "\<lambda>m. ((0, 0, 0, 0), ((1, 0, 0, 0), (0, 1, 0, 0), (0, 0, 1, 0), (0, 0, 0, 1)))" 100]
  by simp

subsection \<open>The hip trial only feeds the printed cross-check\<close>

lemma hip_axis_Inr:
  assumes "3 \<le> length h" and "\<forall>q\<in>set h. qnorm q \<noteq> 0"
  shows "\<exists>a b. find_rotation_axis eigh_a eigh_b (replicate (length h) (1, 0, 0, 0)) h fs
               = Inr (a, b)"
  using assms by (intro find_rotation_axis_Inr) auto

lemma calibrate_side_hip:
  assumes "hip_stream_ok hip1 side" "hip_stream_ok hip2 side" "snd st1 = snd st2"
  shows "returned (calibrate_side eigh_a eigh_b static_data hip1 knee_data ankle_data fs side st1)
       = returned (calibrate_side eigh_a eigh_b static_data hip2 knee_data ankle_data fs side st2)"
proof -
  obtain h1 where h1: "hip1 (side @ ''_thigh'') = Some h1" "3 \<le> length h1"
      "\<forall>q\<in>set h1. qnorm q \<noteq> 0"
    using assms(1) by (auto simp: hip_stream_ok_def list_all_iff split: option.splits)
  obtain h2 where h2: "hip2 (side @ ''_thigh'') = Some h2" "3 \<le> length h2"
      "\<forall>q\<in>set h2. qnorm q \<noteq> 0"
    using assms(2) by (auto simp: hip_stream_ok_def list_all_iff split: option.splits)
  obtain a1 b1 where f1:
    "find_rotation_axis eigh_a eigh_b (replicate (length h1) (1, 0, 0, 0)) h1 fs = Inr (a1, b1)"
    using hip_axis_Inr[OF h1(2,3)] by blast
  obtain a2 b2 where f2:
    "find_rotation_axis eigh_a eigh_b (replicate (length h2) (1, 0, 0, 0)) h2 fs = Inr (a2, b2)"
    using hip_axis_Inr[OF h2(2,3)] by blast
  show ?thesis
    unfolding calibrate_side_def
    by (simp add: lookup_def h1 h2 f1 f2 assms(3) bind_def Let_def returned_def
          split: sum.splits prod.splits option.splits)
qed

lemma calibrate_sides_hip:
  assumes "\<forall>side\<in>set sides. hip_stream_ok hip1 side \<and> hip_stream_ok hip2 side"
    and "snd st1 = snd st2"
  shows "returned (calibrate_sides eigh_a eigh_b static_data hip1 knee_data ankle_data fs sides st1)
       = returned (calibrate_sides eigh_a eigh_b static_data hip2 knee_data ankle_data fs sides st2)"
  using assms
proof (induction sides arbitrary: st1 st2)
  case Nil
  then show ?case by simp
next
  case (Cons side sides)
  let ?c1 = "calibrate_side eigh_a eigh_b static_data hip1 knee_data ankle_data fs side st1"
  let ?c2 = "calibrate_side eigh_a eigh_b static_data hip2 knee_data ankle_data fs side st2"
  have step: "returned ?c1 = returned ?c2"
    using Cons.prems by (intro calibrate_side_hip) auto
  show ?case
  proof (cases ?c1)
    case (Inl e)
    then have "?c2 = Inl e"
      using step by (cases ?c2) auto
    with Inl show ?thesis by simp
  next
    case (Inr s1)
    then obtain s2 where s2: "?c2 = Inr s2" "snd s1 = snd s2"
      using step by (cases ?c2) auto
    have "returned (calibrate_sides eigh_a eigh_b static_data hip1 knee_data ankle_data fs sides s1)
        = returned (calibrate_sides eigh_a eigh_b static_data hip2 knee_data ankle_data fs sides s2)"
      using Cons.prems s2(2) by (intro Cons.IH) auto
    with Inr s2 show ?thesis by simp
  qed
qed

text \<open>
  Claim C9. Take two hip trials, each holding for both sides a thigh stream on which
  \<open>find_rotation_axis\<close> runs to its end (at least three samples, none of norm zero). With the
  same static, knee and ankle trials and the same \<open>fs\<close>, \<open>perform_calibration\<close> returns the
  same thing for both: the same dictionary of calibration quaternions, or the same exception.
  Only the printed dot products can differ.
\<close>

theorem C9_hip_trial_not_in_result:
  assumes "hip_stream_ok hip1 ''left''" "hip_stream_ok hip1 ''right''"
      and "hip_stream_ok hip2 ''left''" "hip_stream_ok hip2 ''right''"
  shows "returned (perform_calibration eigh_a eigh_b static_data hip1 knee_data ankle_data fs)
       = returned (perform_calibration eigh_a eigh_b static_data hip2 knee_data ankle_data fs)"
  unfolding perform_calibration_def
  using assms by (intro calibrate_sides_hip) auto

theorem C9_hip_trial_not_in_result_witness:
  "returned (perform_calibration
       (\<lambda>m. ((0, 0, 0), ((1, 0, 0), (0, 1, 0), (0, 0, 1))))
       (\<lambda>m. ((0, 0, 0, 0), ((1, 0, 0, 0), (0, 1, 0, 0), (0, 0, 1, 0), (0, 0, 0, 1))))
       (\<lambda>k. Some [(1, 0, 0, 0), (1, 0, 0, 0)])
       (\<lambda>k. Some [(1, 0, 0, 0), (0, 1, 0, 0), (0, 0, 1, 0)])
       (\<lambda>k. Some [(1, 0, 0, 0), (0, 1, 0, 0), (1, 0, 0, 0)])
       (\<lambda>k. Some [(1, 0, 0, 0), (0, 0, 1, 0), (1, 0, 0, 0)]) 100)
   = returned (perform_calibration
       (\<lambda>m. ((0, 0, 0), ((1, 0, 0), (0, 1, 0), (0, 0, 1))))
       (\<lambda>m. ((0, 0, 0, 0), ((1, 0, 0, 0), (0, 1, 0, 0), (0, 0, 1, 0), (0, 0, 0, 1))))
       (\<lambda>k. Some [(1, 0, 0, 0), (1, 0, 0, 0)])
       (\<lambda>k. Some [(1, 0, 0, 0), (0, 0, 0, 1), (0, 0, 0, 1), (3, 0, 4, 0)])
       (\<lambda>k. Some [(1, 0, 0, 0), (0, 1, 0, 0), (1, 0, 0, 0)])
       (\<lambda>k. Some [(1, 0, 0, 0), (0, 0, 1, 0), (1, 0, 0, 0)]) 100)"
  using C9_hip_trial_not_in_result
    [of "\<lambda>k. Some [(1, 0, 0, 0), (0, 1, 0, 0), (0, 0, 1, 0)]"
        "\<lambda>k. Some [(1, 0, 0, 0), (0, 0, 0, 1), (0, 0, 0, 1), (3, 0, 4, 0)]"
        "\<lambda>m. ((0, 0, 0), ((1, 0, 0), (0, 1, 0), (0, 0, 1)))"
        "\<lambda>m. ((0, 0, 0, 0), ((1, 0, 0, 0), (0, 1, 0, 0), (0, 0, 1, 0), (0, 0, 0, 1)))"
        "\<lambda>k. Some [(1, 0, 0, 0), (1, 0, 0, 0)]"
        "\<lambda>k. Some [(1, 0, 0, 0), (0, 1, 0, 0), (1, 0, 0, 0)]"
        "\<lambda>k. Some [(1, 0, 0, 0), (0, 0, 1, 0), (1, 0, 0, 0)]" 100]
  by (simp add: hip_stream_ok_def)

subsection \<open>Unit quaternions and the calibration round trip\<close>

lemma qnorm_compose_quat: "qnorm (compose_quat p q) = qnorm p * qnorm q"
proof (cases p, cases q)
  fix a b c d e f g h :: real
  assume p: "p = (a, b, c, d)" and q: "q = (e, f, g, h)"
  have "(d * e + h * a + (b * g - c * f)) * (d * e + h * a + (b * g - c * f))
      + (d * f + h * b + (c * e - a * g)) * (d * f + h * b + (c * e - a * g))
      + (d * g + h * c + (a * f - b * e)) * (d * g + h * c + (a * f - b * e))
      + (d * h - (a * e + b * f + c * g)) * (d * h - (a * e + b * f + c * g))
      = (a * a + b * b + c * c + d * d) * (e * e + f * f + g * g + h * h)"
    by (simp add: algebra_simps)
  then show ?thesis
    by (simp add: p q real_sqrt_mult [symmetric])
qed

lemma qnormalize_unit: "qnorm q = 1 \<Longrightarrow> qnormalize q = q"
  by (cases q) (simp add: qnormalize_def)

lemma rot_mul_unit: "qnorm p = 1 \<Longrightarrow> qnorm q = 1 \<Longrightarrow> rot_mul p q = compose_quat p q"
  by (simp add: rot_mul_def qnormalize_unit qnorm_compose_quat)

lemma qnorm_rot_inv: "qnorm (rot_inv q) = qnorm q"
  by (cases q) simp

lemma compose_quat_assoc:
  "compose_quat (compose_quat p q) r = compose_quat p (compose_quat q r)"
  by (cases p, cases q, cases r) (simp add: algebra_simps)

lemma qnorm_sq: "qnorm (x, y, z, w) = 1 \<Longrightarrow> x * x + y * y + z * z + w * w = 1"
  by (metis qnorm.simps real_sqrt_eq_1_iff)

lemma compose_inv_left: "qnorm q = 1 \<Longrightarrow> compose_quat (rot_inv q) q = (0, 0, 0, 1)"
  by (cases q) (auto dest!: qnorm_sq simp: algebra_simps)

lemma compose_quat_one: "compose_quat p (0, 0, 0, 1) = p"
  by (cases p) simp

text \<open>
  Claim C8. For a raw quaternion and a calibration quaternion of norm one, the calibrated
  rotation \<open>raw * inverse(cal)\<close> is a unit quaternion, and composing it with \<open>cal\<close> again gives
  back \<open>raw\<close>, component for component (so within any tolerance).
\<close>

theorem C8_calibration_round_trip:
  assumes "qnorm raw_q = 1" "qnorm q_cal = 1"
  shows "\<exists>a. anatomical_rot raw_q q_cal = Inr a \<and> qnorm a = 1 \<and>
             to_wxyz_quat (rot_mul a (to_scipy_quat q_cal)) = raw_q"
proof -
  let ?r = "to_scipy_quat raw_q" and ?c = "to_scipy_quat q_cal"
  have r: "qnorm ?r = 1" and c: "qnorm ?c = 1"
    using assms by (simp_all add: qnorm_to_scipy_quat)
  have a: "anatomical_rot raw_q q_cal = Inr (compose_quat ?r (rot_inv ?c))"
    using r c
    by (simp add: anatomical_rot_def from_quat_single_def qnormalize_unit rot_mul_unit qnorm_rot_inv)
  have n: "qnorm (compose_quat ?r (rot_inv ?c)) = 1"
    using r c by (simp add: qnorm_compose_quat qnorm_rot_inv)
  have "rot_mul (compose_quat ?r (rot_inv ?c)) ?c = ?r"
    using n c by (simp add: rot_mul_unit compose_quat_assoc compose_inv_left compose_quat_one)
  moreover have "to_wxyz_quat ?r = raw_q" by (cases raw_q) simp
  ultimately show ?thesis using a n by simp
qed

theorem C8_calibration_round_trip_witness:
  "\<exists>a. anatomical_rot (0, 1, 0, 0) (3 / 5, 0, 4 / 5, 0) = Inr a \<and> qnorm a = 1 \<and>
             to_wxyz_quat (rot_mul a (to_scipy_quat (3 / 5, 0, 4 / 5, 0))) = (0, 1, 0, 0)"
  using C8_calibration_round_trip [of "(0, 1, 0, 0)" "(3 / 5, 0, 4 / 5, 0)"]
  by simp

subsection \<open>Vectors, and the frame of \<open>create_anatomical_frame\<close>\<close>

























subsection \<open>Parallel axes\<close>





subsection \<open>The principal axis\<close>










lemma pi_not_small: "\<not> pi \<le> 1 / 1000" "\<not> 1000 * pi \<le> 1"
  using pi_ge_two by linarith+

lemma as_rotvec_half_turn_x: "as_rotvec (1, 0, 0, 0) = (pi, 0, 0)"
  by (simp add: arctan2_def pi_not_small)

lemma as_rotvec_identity: "as_rotvec (0, 0, 0, 1) = (0, 0, 0)"
  by (simp add: arctan2_def)

lemma example_rel:
  "relative_rotation [(1, 0, 0, 0), (1, 0, 0, 0), (1, 0, 0, 0)]
                     [(1, 0, 0, 0), (0, 1, 0, 0), (0, 1, 0, 0)]
     = Inr [(0, 0, 0, 1), (1, 0, 0, 0), (1, 0, 0, 0)]"
  by (simp add: relative_rotation_def from_quat_def rots_mul_def rot_mul_def qnormalize_def)

lemma example_w:
  "relative_ang_vel [(1, 0, 0, 0), (1, 0, 0, 0), (1, 0, 0, 0)]
                    [(1, 0, 0, 0), (0, 1, 0, 0), (0, 1, 0, 0)] 100
     = Inr [(100 * pi, 0, 0), (0, 0, 0)]"
  by (simp add: relative_ang_vel_def example_rel rots_mul_def rot_mul_def qnormalize_def
        as_rotvec_half_turn_x as_rotvec_identity del: as_rotvec.simps)

lemma example_cov:
  "cov3 [(100 * pi, 0, 0), (0, 0, 0)] = ((5000 * pi\<^sup>2, 0, 0), (0, 0, 0), (0, 0, 0))"
  by (simp add: cov3_def Let_def power2_eq_square)





subsection \<open>A constant rotation composed with every sample\<close>

lemma as_rotvec_half_turn_y: "as_rotvec (0, 1, 0, 0) = (0, pi, 0)"
  by (simp add: arctan2_def pi_not_small)

lemma example_left_samples:
  "left_composed (1 / 2, 1 / 2, 1 / 2, 1 / 2) (1, 0, 0, 0) = (1 / 2, 1 / 2, 1 / 2, 1 / 2)"
  "left_composed (1 / 2, 1 / 2, 1 / 2, 1 / 2) (0, 1, 0, 0) = (- (1 / 2), 1 / 2, 1 / 2, - (1 / 2))"
  by (simp_all add: left_composed_def)

lemma example_left_rel:
  "relative_rotation
     [(1 / 2, 1 / 2, 1 / 2, 1 / 2), (1 / 2, 1 / 2, 1 / 2, 1 / 2), (1 / 2, 1 / 2, 1 / 2, 1 / 2)]
     [(1 / 2, 1 / 2, 1 / 2, 1 / 2), (- (1 / 2), 1 / 2, 1 / 2, - (1 / 2)),
      (- (1 / 2), 1 / 2, 1 / 2, - (1 / 2))]
     = Inr [(0, 0, 0, 1), (0, 1, 0, 0), (0, 1, 0, 0)]"
  by (simp add: relative_rotation_def from_quat_def rots_mul_def rot_mul_def qnormalize_def)

lemma example_left_w:
  "relative_ang_vel
     [(1 / 2, 1 / 2, 1 / 2, 1 / 2), (1 / 2, 1 / 2, 1 / 2, 1 / 2), (1 / 2, 1 / 2, 1 / 2, 1 / 2)]
     [(1 / 2, 1 / 2, 1 / 2, 1 / 2), (- (1 / 2), 1 / 2, 1 / 2, - (1 / 2)),
      (- (1 / 2), 1 / 2, 1 / 2, - (1 / 2))]
     100
     = Inr [(0, 100 * pi, 0), (0, 0, 0)]"
  by (simp add: relative_ang_vel_def example_left_rel rots_mul_def rot_mul_def qnormalize_def
        as_rotvec_half_turn_y as_rotvec_identity del: as_rotvec.simps)

lemma example_left_cov:
  "cov3 [(0, 100 * pi, 0), (0, 0, 0)] = ((0, 0, 0), (0, 5000 * pi\<^sup>2, 0), (0, 0, 0))"
  by (simp add: cov3_def Let_def power2_eq_square)

lemma example_K:
  "outer_sum [(0, 0, 0, 1), (1, 0, 0, 0), (1, 0, 0, 0)]
     = ((2, 0, 0, 0), (0, 0, 0, 0), (0, 0, 0, 0), (0, 0, 0, 1))"
  by (simp add: outer_sum_def)

lemma example_left_K:
  "outer_sum [(0, 0, 0, 1), (0, 1, 0, 0), (0, 1, 0, 0)]
     = ((0, 0, 0, 0), (0, 2, 0, 0), (0, 0, 0, 0), (0, 0, 0, 1))"
  by (simp add: outer_sum_def)

text \<open>
  Claim C6 says that composing a constant rotation \<open>C\<close> with every sample of both streams
  (\<open>C * q\<close>) changes neither axis. It does. Take a proximal stream at rest, a distal stream
  that makes a half turn about \<open>x\<close>, and for \<open>C\<close> the turn by 120 degrees about \<open>(1, 1, 1)\<close>.
  With an eigen-solver that is right on the matrices that occur, both returned axes are
  \<open>(1, 0, 0)\<close> before and \<open>(0, 1, 0)\<close> after.
\<close>

theorem C6_left_composition_changes_axes:
  "eigh3_ok (cov3 [(100 * pi, 0, 0), (0, 0, 0)])
            (eigh_axis_example (cov3 [(100 * pi, 0, 0), (0, 0, 0)])) \<and>
   eigh3_ok (cov3 [(0, 100 * pi, 0), (0, 0, 0)])
            (eigh_axis_example (cov3 [(0, 100 * pi, 0), (0, 0, 0)])) \<and>
   eigh4_ok (outer_sum [(0, 0, 0, 1), (1, 0, 0, 0), (1, 0, 0, 0)])
            (eigh_mean_example (outer_sum [(0, 0, 0, 1), (1, 0, 0, 0), (1, 0, 0, 0)])) \<and>
   eigh4_ok (outer_sum [(0, 0, 0, 1), (0, 1, 0, 0), (0, 1, 0, 0)])
            (eigh_mean_example (outer_sum [(0, 0, 0, 1), (0, 1, 0, 0), (0, 1, 0, 0)])) \<and>
   qnorm (1 / 2, 1 / 2, 1 / 2, 1 / 2) = 1 \<and>
   find_rotation_axis eigh_axis_example eigh_mean_example
     [(1, 0, 0, 0), (1, 0, 0, 0), (1, 0, 0, 0)]
     [(1, 0, 0, 0), (0, 1, 0, 0), (0, 1, 0, 0)] 100
     = Inr (Some (1, 0, 0), Some (1, 0, 0)) \<and>
   find_rotation_axis eigh_axis_example eigh_mean_example
     (map (left_composed (1 / 2, 1 / 2, 1 / 2, 1 / 2)) [(1, 0, 0, 0), (1, 0, 0, 0), (1, 0, 0, 0)])
     (map (left_composed (1 / 2, 1 / 2, 1 / 2, 1 / 2)) [(1, 0, 0, 0), (0, 1, 0, 0), (0, 1, 0, 0)])
     100
     = Inr (Some (0, 1, 0), Some (0, 1, 0))"
proof -
  have pp: "0 \<le> 5000 * pi\<^sup>2" by simp
  have a: "eigh3_ok (cov3 [(100 * pi, 0, 0), (0, 0, 0)])
            (eigh_axis_example (cov3 [(100 * pi, 0, 0), (0, 0, 0)]))"
    by (simp add: example_cov eigh3_ok_def)
  have b: "eigh3_ok (cov3 [(0, 100 * pi, 0), (0, 0, 0)])
            (eigh_axis_example (cov3 [(0, 100 * pi, 0), (0, 0, 0)]))"
    by (simp add: example_left_cov eigh3_ok_def)
  have c: "eigh4_ok (outer_sum [(0, 0, 0, 1), (1, 0, 0, 0), (1, 0, 0, 0)])
            (eigh_mean_example (outer_sum [(0, 0, 0, 1), (1, 0, 0, 0), (1, 0, 0, 0)]))"
    by (simp add: example_K eigh4_ok_def)
  have d: "eigh4_ok (outer_sum [(0, 0, 0, 1), (0, 1, 0, 0), (0, 1, 0, 0)])
            (eigh_mean_example (outer_sum [(0, 0, 0, 1), (0, 1, 0, 0), (0, 1, 0, 0)]))"
    by (simp add: example_left_K eigh4_ok_def)
  have e: "qnorm (1 / 2, 1 / 2, 1 / 2, 1 / 2) = 1" by simp
  have f: "find_rotation_axis eigh_axis_example eigh_mean_example
     [(1, 0, 0, 0), (1, 0, 0, 0), (1, 0, 0, 0)]
     [(1, 0, 0, 0), (0, 1, 0, 0), (0, 1, 0, 0)] 100
     = Inr (Some (1, 0, 0), Some (1, 0, 0))"
    by (simp add: find_rotation_axis_def example_w example_rel example_cov
          rot_mean_def example_K rot_apply_def unit_vector_def Let_def)
  have g: "find_rotation_axis eigh_axis_example eigh_mean_example
     (map (left_composed (1 / 2, 1 / 2, 1 / 2, 1 / 2)) [(1, 0, 0, 0), (1, 0, 0, 0), (1, 0, 0, 0)])
     (map (left_composed (1 / 2, 1 / 2, 1 / 2, 1 / 2)) [(1, 0, 0, 0), (0, 1, 0, 0), (0, 1, 0, 0)])
     100
     = Inr (Some (0, 1, 0), Some (0, 1, 0))"
    by (simp add: example_left_samples find_rotation_axis_def example_left_w example_left_rel
          example_left_cov rot_mean_def example_left_K rot_apply_def unit_vector_def Let_def)
  show ?thesis using a b c d e f g by (intro conjI)
qed


lemma to_scipy_to_wxyz: "to_scipy_quat (to_wxyz_quat q) = q"
  by (cases q) simp

lemma compose_quat_qscale_left: "compose_quat (qscale s p) q = qscale s (compose_quat p q)"
  by (cases p, cases q) (simp add: algebra_simps)

lemma compose_quat_qscale_right: "compose_quat p (qscale s q) = qscale s (compose_quat p q)"
  by (cases p, cases q) (simp add: algebra_simps)

lemma qnormalize_compose_left:
  "qnorm c = 1 \<Longrightarrow> qnormalize (compose_quat c q) = compose_quat c (qnormalize q)"
  by (simp add: qnormalize_def qnorm_compose_quat compose_quat_qscale_right)

lemma qnormalize_compose_right:
  "qnorm c = 1 \<Longrightarrow> qnormalize (compose_quat q c) = compose_quat (qnormalize q) c"
  by (simp add: qnormalize_def qnorm_compose_quat compose_quat_qscale_left)

lemma rot_inv_compose: "rot_inv (compose_quat p q) = compose_quat (rot_inv q) (rot_inv p)"
  by (cases p, cases q) (simp add: algebra_simps)

lemma qnorm_qscale: "qnorm (qscale s q) = \<bar>s\<bar> * qnorm q"
proof (cases q)
  case (fields x y z w)
  have "s * x * (s * x) + s * y * (s * y) + s * z * (s * z) + s * w * (s * w)
          = s\<^sup>2 * (x * x + y * y + z * z + w * w)"
    by (simp add: algebra_simps power2_eq_square)
  then show ?thesis using fields by (simp add: real_sqrt_mult)
qed

lemma qnorm_nonneg: "0 \<le> qnorm q"
  by (cases q) simp

lemma qnorm_qnormalize: "qnorm q \<noteq> 0 \<Longrightarrow> qnorm (qnormalize q) = 1"
  using qnorm_nonneg [of q] by (simp add: qnormalize_def qnorm_qscale)

lemma compose_inv_right: "qnorm q = 1 \<Longrightarrow> compose_quat q (rot_inv q) = (0, 0, 0, 1)"
  by (cases q) (auto dest!: qnorm_sq simp: algebra_simps)

lemma compose_quat_one_left: "compose_quat (0, 0, 0, 1) p = p"
  by (cases p) simp

lemma rel_right_composed:
  assumes c: "qnorm c = 1" and p: "qnorm p \<noteq> 0" and d: "qnorm d \<noteq> 0"
  shows "rot_mul (qnormalize (to_scipy_quat (right_composed c d)))
                 (rot_inv (qnormalize (to_scipy_quat (right_composed c p))))
       = rot_mul (qnormalize (to_scipy_quat d)) (rot_inv (qnormalize (to_scipy_quat p)))"
proof -
  let ?p = "qnormalize (to_scipy_quat p)" and ?d = "qnormalize (to_scipy_quat d)"
  have "compose_quat (compose_quat ?d c) (compose_quat (rot_inv c) (rot_inv ?p))
      = compose_quat ?d (compose_quat (compose_quat c (rot_inv c)) (rot_inv ?p))"
    by (simp only: compose_quat_assoc)
  also have "\<dots> = compose_quat ?d (rot_inv ?p)"
    by (simp add: compose_inv_right [OF c] compose_quat_one_left)
  finally show ?thesis
    by (simp add: rot_mul_def right_composed_def to_scipy_to_wxyz qnormalize_compose_right [OF c]
          rot_inv_compose)
qed

lemma rel_left_composed:
  assumes c: "qnorm c = 1" and p: "qnorm p \<noteq> 0" and d: "qnorm d \<noteq> 0"
  shows "rot_mul (qnormalize (to_scipy_quat (left_composed c d)))
                 (rot_inv (qnormalize (to_scipy_quat (left_composed c p))))
       = compose_quat c (compose_quat
           (rot_mul (qnormalize (to_scipy_quat d)) (rot_inv (qnormalize (to_scipy_quat p))))
           (rot_inv c))"
proof -
  let ?p = "qnormalize (to_scipy_quat p)" and ?d = "qnormalize (to_scipy_quat d)"
  have np: "qnorm ?p = 1" and nd: "qnorm ?d = 1"
    using p d by (simp_all add: qnorm_qnormalize qnorm_to_scipy_quat)
  have r: "rot_mul ?d (rot_inv ?p) = compose_quat ?d (rot_inv ?p)"
    using np nd by (simp add: rot_mul_unit qnorm_rot_inv)
  have n: "qnorm (compose_quat (compose_quat c ?d) (compose_quat (rot_inv ?p) (rot_inv c))) = 1"
    using c np nd by (simp add: qnorm_compose_quat qnorm_rot_inv)
  have "rot_mul (compose_quat c ?d) (compose_quat (rot_inv ?p) (rot_inv c))
      = compose_quat (compose_quat c ?d) (compose_quat (rot_inv ?p) (rot_inv c))"
    using n by (simp add: rot_mul_def qnormalize_unit)
  also have "\<dots> = compose_quat c (compose_quat (compose_quat ?d (rot_inv ?p)) (rot_inv c))"
    by (simp only: compose_quat_assoc)
  finally show ?thesis
    by (simp add: r left_composed_def to_scipy_to_wxyz qnormalize_compose_left [OF c]
          rot_inv_compose)
qed

lemma qnorm_to_wxyz_quat: "qnorm (to_wxyz_quat q) = qnorm q"
  by (cases q) (simp add: add.commute add.left_commute)

lemma qnorm_right_composed: "qnorm c = 1 \<Longrightarrow> qnorm (right_composed c q) = qnorm q"
  by (simp add: right_composed_def qnorm_to_wxyz_quat qnorm_compose_quat qnorm_to_scipy_quat)

lemma qnorm_left_composed: "qnorm c = 1 \<Longrightarrow> qnorm (left_composed c q) = qnorm q"
  by (simp add: left_composed_def qnorm_to_wxyz_quat qnorm_compose_quat qnorm_to_scipy_quat)

lemma rel_of_right_composed:
  assumes "qnorm c = 1" "length proximal_q = length distal_q"
    and "\<forall>q\<in>set proximal_q. qnorm q \<noteq> 0" and "\<forall>q\<in>set distal_q. qnorm q \<noteq> 0"
  shows "rel_of (map (right_composed c) proximal_q) (map (right_composed c) distal_q)
       = rel_of proximal_q distal_q"
  using assms
  by (intro nth_equalityI) (simp_all add: rel_of_def rel_right_composed)

lemma rel_of_left_composed:
  assumes "qnorm c = 1" "length proximal_q = length distal_q"
    and "\<forall>q\<in>set proximal_q. qnorm q \<noteq> 0" and "\<forall>q\<in>set distal_q. qnorm q \<noteq> 0"
  shows "rel_of (map (left_composed c) proximal_q) (map (left_composed c) distal_q)
       = map (\<lambda>r. compose_quat c (compose_quat r (rot_inv c))) (rel_of proximal_q distal_q)"
  using assms
  by (intro nth_equalityI) (simp_all add: rel_of_def rel_left_composed)

lemma find_rotation_axis_cong:
  assumes "relative_rotation p' d' = relative_rotation p d"
  shows "find_rotation_axis eigh_a eigh_b p' d' fs = find_rotation_axis eigh_a eigh_b p d fs"
  unfolding find_rotation_axis_def relative_ang_vel_def assms by (rule refl)

text \<open>
  Claim C6, as the code has it. The relative rotation is \<open>distal * inverse(proximal)\<close>, so
  it is composing on the right that cancels: replacing every sample \<open>q\<close> of both streams by
  \<open>q * C\<close>, for a unit quaternion \<open>C\<close>, leaves what \<open>find_rotation_axis\<close> returns unchanged.
  Replacing every sample by \<open>C * q\<close> turns each relative rotation \<open>rel[i]\<close> into
  \<open>C * rel[i] * inverse(C)\<close>.
\<close>

theorem C6_right_composition_invariant:
  assumes "length proximal_q = length distal_q"
    and "\<forall>q\<in>set proximal_q. qnorm q \<noteq> 0" and "\<forall>q\<in>set distal_q. qnorm q \<noteq> 0"
    and "qnorm c = 1"
  shows "find_rotation_axis eigh_a eigh_b
           (map (right_composed c) proximal_q) (map (right_composed c) distal_q) fs
         = find_rotation_axis eigh_a eigh_b proximal_q distal_q fs
       \<and> relative_rotation (map (left_composed c) proximal_q) (map (left_composed c) distal_q)
         = Inr (map (\<lambda>r. compose_quat c (compose_quat r (rot_inv c)))
                  (rel_of proximal_q distal_q))"
proof
  have "relative_rotation (map (right_composed c) proximal_q) (map (right_composed c) distal_q)
      = Inr (rel_of (map (right_composed c) proximal_q) (map (right_composed c) distal_q))"
    using assms by (intro relative_rotation_ok) (simp_all add: qnorm_right_composed)
  also have "\<dots> = Inr (rel_of proximal_q distal_q)"
    using assms by (simp add: rel_of_right_composed)
  also have "\<dots> = relative_rotation proximal_q distal_q"
    using assms by (simp add: relative_rotation_ok)
  finally show "find_rotation_axis eigh_a eigh_b
           (map (right_composed c) proximal_q) (map (right_composed c) distal_q) fs
         = find_rotation_axis eigh_a eigh_b proximal_q distal_q fs"
    by (rule find_rotation_axis_cong)
next
  have "relative_rotation (map (left_composed c) proximal_q) (map (left_composed c) distal_q)
      = Inr (rel_of (map (left_composed c) proximal_q) (map (left_composed c) distal_q))"
    using assms by (intro relative_rotation_ok) (simp_all add: qnorm_left_composed)
  then show "relative_rotation (map (left_composed c) proximal_q) (map (left_composed c) distal_q)
         = Inr (map (\<lambda>r. compose_quat c (compose_quat r (rot_inv c)))
                  (rel_of proximal_q distal_q))"
    using assms by (simp add: rel_of_left_composed)
qed

theorem C6_right_composition_invariant_witness:
  "find_rotation_axis eigh_axis_example eigh_mean_example
     (map (right_composed (1 / 2, 1 / 2, 1 / 2, 1 / 2)) [(1, 0, 0, 0), (1, 0, 0, 0), (1, 0, 0, 0)])
     (map (right_composed (1 / 2, 1 / 2, 1 / 2, 1 / 2)) [(1, 0, 0, 0), (0, 1, 0, 0), (0, 1, 0, 0)])
     100
   = find_rotation_axis eigh_axis_example eigh_mean_example
     [(1, 0, 0, 0), (1, 0, 0, 0), (1, 0, 0, 0)] [(1, 0, 0, 0), (0, 1, 0, 0), (0, 1, 0, 0)] 100
   \<and> relative_rotation
     (map (left_composed (1 / 2, 1 / 2, 1 / 2, 1 / 2)) [(1, 0, 0, 0), (1, 0, 0, 0), (1, 0, 0, 0)])
     (map (left_composed (1 / 2, 1 / 2, 1 / 2, 1 / 2)) [(1, 0, 0, 0), (0, 1, 0, 0), (0, 1, 0, 0)])
   = Inr (map (\<lambda>r. compose_quat (1 / 2, 1 / 2, 1 / 2, 1 / 2)
                     (compose_quat r (rot_inv (1 / 2, 1 / 2, 1 / 2, 1 / 2))))
            (rel_of [(1, 0, 0, 0), (1, 0, 0, 0), (1, 0, 0, 0)]
                    [(1, 0, 0, 0), (0, 1, 0, 0), (0, 1, 0, 0)]))"
  using C6_right_composition_invariant [of "[(1, 0, 0, 0), (1, 0, 0, 0), (1, 0, 0, 0)]"
                       "[(1, 0, 0, 0), (0, 1, 0, 0), (0, 1, 0, 0)]"
                       "(1 / 2, 1 / 2, 1 / 2, 1 / 2)" eigh_axis_example eigh_mean_example 100]
  by simp

subsection \<open>Opposite quaternions and scaled quaternions\<close>



lemma qscale_one: "qscale 1 q = q"
  by (cases q) simp



lemma same_rotation_refl: "same_rotation a a"
  by (simp add: same_rotation_def)


































subsection \<open>The Euler angles of the calibrated rotation\<close>

lemma eps_lt_pi: "\<bar>pi / 2\<bar> \<ge> 1 / 10000000" "\<bar>pi / 2 - pi\<bar> \<ge> 1 / 10000000"
  using pi_ge_two by (simp_all add: abs_if) 

lemma example_anatomical_rot:
  "anatomical_rot (1 / 2, 1 / 2, 1 / 2, 1 / 2) (1, 0, 0, 0) = Inr (1 / 2, 1 / 2, 1 / 2, 1 / 2)"
  by (simp add: anatomical_rot_def from_quat_single_def qnormalize_def rot_mul_def)

lemma example_as_euler: "as_euler_xyz (1 / 2, 1 / 2, 1 / 2, 1 / 2) = (pi / 2, 0, pi / 2)"
proof -
  have m: "as_matrix (1 / 2, 1 / 2, 1 / 2, 1 / 2) = ((0, 0, 1), (1, 0, 0), (0, 1, 0))"
    by simp
  show ?thesis
    unfolding as_euler_xyz_def m using eps_lt_pi by (simp add: arctan2_def Let_def)
qed

lemma example_apply_calibration:
  "apply_calibration (1 / 2, 1 / 2, 1 / 2, 1 / 2) (1, 0, 0, 0)
     = Inr ((1 / 2, 1 / 2, 1 / 2, 1 / 2), (90, 0, 90))"
  by (simp add: apply_calibration_def example_anatomical_rot as_euler_xyz_degrees_def
        example_as_euler rad2deg_def)

text \<open>
  Claim C7 says that the Euler triple is an intrinsic X-Y-Z decomposition. The script calls
  \<open>as_euler('xyz', degrees=True)\<close>, and lower-case axes are extrinsic. For the raw
  quaternion \<open>(1/2, 1/2, 1/2, 1/2)\<close> and the identity calibration the angles are
  \<open>(90, 0, 90)\<close> degrees; the rotation has the matrix \<open>((0, 0, 1), (1, 0, 0), (0, 1, 0))\<close>, which
  is what these angles give extrinsically, while intrinsically about X, Y, Z they give
  \<open>((0, -1, 0), (0, 0, -1), (1, 0, 0))\<close>.
\<close>

theorem C7_euler_triple_not_intrinsic:
  "apply_calibration (1 / 2, 1 / 2, 1 / 2, 1 / 2) (1, 0, 0, 0)
     = Inr ((1 / 2, 1 / 2, 1 / 2, 1 / 2), (90, 0, 90)) \<and>
   as_matrix (to_scipy_quat (1 / 2, 1 / 2, 1 / 2, 1 / 2)) = ((0, 0, 1), (1, 0, 0), (0, 1, 0)) \<and>
   intrinsic_xyz (deg2rad 90, deg2rad 0, deg2rad 90) = ((0, - 1, 0), (0, 0, - 1), (1, 0, 0)) \<and>
   intrinsic_xyz (deg2rad 90, deg2rad 0, deg2rad 90)
     \<noteq> as_matrix (to_scipy_quat (1 / 2, 1 / 2, 1 / 2, 1 / 2)) \<and>
   extrinsic_xyz (deg2rad 90, deg2rad 0, deg2rad 90)
     = as_matrix (to_scipy_quat (1 / 2, 1 / 2, 1 / 2, 1 / 2))"
proof -
  have m: "as_matrix (to_scipy_quat (1 / 2, 1 / 2, 1 / 2, 1 / 2))
             = ((0, 0, 1), (1, 0, 0), (0, 1, 0))"
    by simp
  have g: "deg2rad 90 = pi / 2" "deg2rad 0 = 0" by (simp_all add: deg2rad_def)
  have i: "intrinsic_xyz (deg2rad 90, deg2rad 0, deg2rad 90)
             = ((0, - 1, 0), (0, 0, - 1), (1, 0, 0))"
    by (simp add: g intrinsic_xyz_def rot_x_def rot_y_def rot_z_def)
  have x: "extrinsic_xyz (deg2rad 90, deg2rad 0, deg2rad 90) = ((0, 0, 1), (1, 0, 0), (0, 1, 0))"
    by (simp add: g extrinsic_xyz_def rot_x_def rot_y_def rot_z_def)
  have ne: "intrinsic_xyz (deg2rad 90, deg2rad 0, deg2rad 90)
             \<noteq> as_matrix (to_scipy_quat (1 / 2, 1 / 2, 1 / 2, 1 / 2))"
    unfolding i m by simp
  have xe: "extrinsic_xyz (deg2rad 90, deg2rad 0, deg2rad 90)
             = as_matrix (to_scipy_quat (1 / 2, 1 / 2, 1 / 2, 1 / 2))"
    unfolding x m by (rule refl)
  show ?thesis using example_apply_calibration m i ne xe by (intro conjI)
qed

lemma sqrt_one_plus_ratio:
  fixes x y :: real
  assumes "x \<noteq> 0"
  shows "sqrt (1 + (y / x)\<^sup>2) = sqrt (x\<^sup>2 + y\<^sup>2) / \<bar>x\<bar>"
proof -
  have "1 + (y / x)\<^sup>2 = (x\<^sup>2 + y\<^sup>2) / x\<^sup>2"
    using assms by (simp add: field_simps power2_eq_square)
  then show ?thesis by (simp add: real_sqrt_divide)
qed

lemma hyp_pos:
  fixes x y :: real
  assumes "x \<noteq> 0 \<or> y \<noteq> 0"
  shows "0 < sqrt (x\<^sup>2 + y\<^sup>2)"
  using assms by (auto simp: sum_power2_gt_zero_iff)

lemma cos_arctan2:
  assumes "x \<noteq> 0 \<or> y \<noteq> 0"
  shows "cos (arctan2 y x) = x / sqrt (x\<^sup>2 + y\<^sup>2)"
proof -
  have h: "0 < sqrt (x\<^sup>2 + y\<^sup>2)" using assms by (rule hyp_pos)
  consider "0 < x" | "x < 0" | "x = 0" by linarith
  then show ?thesis
  proof cases
    case 1
    then show ?thesis
      by (simp add: arctan2_def cos_arctan sqrt_one_plus_ratio)
  next
    case 2
    then show ?thesis
      by (simp add: arctan2_def cos_arctan sqrt_one_plus_ratio)
  next
    case 3
    then show ?thesis using assms by (simp add: arctan2_def)
  qed
qed

lemma sin_arctan2:
  assumes "x \<noteq> 0 \<or> y \<noteq> 0"
  shows "sin (arctan2 y x) = y / sqrt (x\<^sup>2 + y\<^sup>2)"
proof -
  have h: "0 < sqrt (x\<^sup>2 + y\<^sup>2)" using assms by (rule hyp_pos)
  consider "0 < x" | "x < 0" | "x = 0" by linarith
  then show ?thesis
  proof cases
    case 1
    then show ?thesis
      by (simp add: arctan2_def sin_arctan sqrt_one_plus_ratio)
  next
    case 2
    then show ?thesis
      by (simp add: arctan2_def sin_arctan sqrt_one_plus_ratio)
  next
    case 3
    then have "y \<noteq> 0" using assms by simp
    then consider "0 < y" | "y < 0" by linarith
    then show ?thesis using 3 by cases (simp_all add: arctan2_def)
  qed
qed

lemma extrinsic_entries:
  "extrinsic_xyz (a, b, c) =
     ((cos c * cos b, cos c * sin b * sin a - sin c * cos a, cos c * sin b * cos a + sin c * sin a),
      (sin c * cos b, sin c * sin b * sin a + cos c * cos a, sin c * sin b * cos a - cos c * sin a),
      (- sin b, cos b * sin a, cos b * cos a))"
  by (simp add: extrinsic_xyz_def rot_x_def rot_y_def rot_z_def algebra_simps)

lemma rotation_matrix_identities:
  fixes x y z w :: real
  assumes n: "x * x + y * y + z * z + w * w = 1"
    and "m00 = x * x - y * y - z * z + w * w" and "m01 = 2 * (x * y - z * w)"
    and "m02 = 2 * (x * z + y * w)" and "m10 = 2 * (x * y + z * w)"
    and "m11 = - (x * x) + y * y - z * z + w * w" and "m12 = 2 * (y * z - x * w)"
    and "m20 = 2 * (x * z - y * w)" and "m21 = 2 * (y * z + x * w)"
    and "m22 = - (x * x) - y * y + z * z + w * w"
  shows "m22\<^sup>2 + m21\<^sup>2 = 1 - m20\<^sup>2" "m00\<^sup>2 + m10\<^sup>2 = 1 - m20\<^sup>2"
    "m00 * (- m20) * m21 - m10 * m22 = m01 * (1 - m20\<^sup>2)"
    "m00 * (- m20) * m22 + m10 * m21 = m02 * (1 - m20\<^sup>2)"
    "m10 * (- m20) * m21 + m00 * m22 = m11 * (1 - m20\<^sup>2)"
    "m10 * (- m20) * m22 - m00 * m21 = m12 * (1 - m20\<^sup>2)"
  using assms by algebra+

lemma quotient_plus:
  fixes rho :: real
  assumes "rho \<noteq> 0" "a * b * c + d * e = m * (rho * rho)"
  shows "a / rho * b * (c / rho) + d / rho * (e / rho) = m"
proof -
  have "a / rho * b * (c / rho) + d / rho * (e / rho) = (a * b * c + d * e) / (rho * rho)"
    using assms(1) by (simp add: field_simps)
  then show ?thesis using assms by simp
qed

lemma quotient_minus:
  fixes rho :: real
  assumes "rho \<noteq> 0" "a * b * c - d * e = m * (rho * rho)"
  shows "a / rho * b * (c / rho) - d / rho * (e / rho) = m"
proof -
  have "a / rho * b * (c / rho) - d / rho * (e / rho) = (a * b * c - d * e) / (rho * rho)"
    using assms(1) by (simp add: field_simps)
  then show ?thesis using assms by simp
qed

lemma as_euler_xyz_extrinsic:
  assumes q: "qnorm q = 1" and s: "\<not> gimbal_lock q"
  shows "extrinsic_xyz (as_euler_xyz q) = as_matrix q"
proof -
  obtain x y z w where qe: "q = (x, y, z, w)" by (cases q)
  have n: "x * x + y * y + z * z + w * w = 1" using q qnorm_sq by (simp add: qe)
  define m00 where "m00 = x * x - y * y - z * z + w * w"
  define m01 where "m01 = 2 * (x * y - z * w)"
  define m02 where "m02 = 2 * (x * z + y * w)"
  define m10 where "m10 = 2 * (x * y + z * w)"
  define m11 where "m11 = - (x * x) + y * y - z * z + w * w"
  define m12 where "m12 = 2 * (y * z - x * w)"
  define m20 where "m20 = 2 * (x * z - y * w)"
  define m21 where "m21 = 2 * (y * z + x * w)"
  define m22 where "m22 = - (x * x) - y * y + z * z + w * w"
  note defs = m00_def m01_def m02_def m10_def m11_def m12_def m20_def m21_def m22_def
  have M: "as_matrix q = ((m00, m01, m02), (m10, m11, m12), (m20, m21, m22))"
    by (simp add: qe defs)
  note id = rotation_matrix_identities [OF n defs]
  have "m20\<^sup>2 \<le> 1"
    using id(1) zero_le_power2 [of m22] zero_le_power2 [of m21] by linarith
  then have b: "- 1 \<le> m20" "m20 \<le> 1"
    by (simp_all add: abs_le_square_iff [of m20 1, simplified, symmetric] abs_le_iff)
  have safe: "\<bar>arccos m20\<bar> \<ge> 1 / 10000000" "\<bar>arccos m20 - pi\<bar> \<ge> 1 / 10000000"
    using s by (simp_all add: gimbal_lock_def M)
  have "m20 \<noteq> 1" using safe(1) by auto
  moreover have "m20 \<noteq> - 1" using safe(2) by auto
  ultimately have st: "- 1 < m20" "m20 < 1" using b by linarith+
  then have "\<bar>m20\<bar> < 1" by linarith
  then have "m20\<^sup>2 < 1" by (simp add: abs_square_less_1)
  then have pos: "0 < 1 - m20\<^sup>2" by simp
  define rho where "rho = sqrt (1 - m20\<^sup>2)"
  have rho: "0 < rho" "rho \<noteq> 0" using pos by (simp_all add: rho_def)
  have rr: "rho * rho = 1 - m20\<^sup>2" using pos by (simp add: rho_def)
  have e: "as_euler_xyz q = (arctan2 m21 m22, arccos m20 - pi / 2, arctan2 m10 m00)"
    using safe by (simp add: as_euler_xyz_def M Let_def)
  have nz1: "m22 \<noteq> 0 \<or> m21 \<noteq> 0" using id(1) pos by auto
  have nz2: "m00 \<noteq> 0 \<or> m10 \<noteq> 0" using id(2) pos by auto
  have ca: "cos (arctan2 m21 m22) = m22 / rho" and sa: "sin (arctan2 m21 m22) = m21 / rho"
    using cos_arctan2 [OF nz1] sin_arctan2 [OF nz1] by (simp_all add: id(1) rho_def)
  have cg: "cos (arctan2 m10 m00) = m00 / rho" and sg: "sin (arctan2 m10 m00) = m10 / rho"
    using cos_arctan2 [OF nz2] sin_arctan2 [OF nz2] by (simp_all add: id(2) rho_def)
  have sb: "sin (arccos m20 - pi / 2) = - m20"
    using b by (simp add: sin_diff)
  have cb: "cos (arccos m20 - pi / 2) = rho"
    using b by (simp add: cos_diff sin_arccos rho_def)
  have e00: "m00 / rho * rho = m00" and e10: "m10 / rho * rho = m10"
    and e21: "rho * (m21 / rho) = m21" and e22: "rho * (m22 / rho) = m22"
    using rho(2) by simp_all
  have e01: "m00 / rho * (- m20) * (m21 / rho) - m10 / rho * (m22 / rho) = m01"
    using rho(2) id(3) by (intro quotient_minus) (simp_all add: rr)
  have e02: "m00 / rho * (- m20) * (m22 / rho) + m10 / rho * (m21 / rho) = m02"
    using rho(2) id(4) by (intro quotient_plus) (simp_all add: rr)
  have e11: "m10 / rho * (- m20) * (m21 / rho) + m00 / rho * (m22 / rho) = m11"
    using rho(2) id(5) by (intro quotient_plus) (simp_all add: rr)
  have e12: "m10 / rho * (- m20) * (m22 / rho) - m00 / rho * (m21 / rho) = m12"
    using rho(2) id(6) by (intro quotient_minus) (simp_all add: rr)
  show ?thesis
    unfolding e extrinsic_entries M ca sa cg sg sb cb e00 e10 e21 e22 e01 e02 e11 e12
    by simp
qed

lemma deg2rad_rad2deg: "deg2rad (rad2deg a) = a"
  by (simp add: deg2rad_def rad2deg_def)

lemma anatomical_rot_unit:
  assumes "qnorm raw_q \<noteq> 0" "qnorm q_cal \<noteq> 0"
  shows "\<exists>rot. anatomical_rot raw_q q_cal = Inr rot \<and> qnorm rot = 1"
proof -
  let ?r = "qnormalize (to_scipy_quat raw_q)" and ?c = "qnormalize (to_scipy_quat q_cal)"
  have r: "qnorm ?r = 1" and c: "qnorm ?c = 1"
    using assms by (simp_all add: qnorm_qnormalize qnorm_to_scipy_quat)
  have "anatomical_rot raw_q q_cal = Inr (compose_quat ?r (rot_inv ?c))"
    using assms r c
    by (simp add: anatomical_rot_def from_quat_single_def qnorm_to_scipy_quat rot_mul_unit
          qnorm_rot_inv)
  moreover have "qnorm (compose_quat ?r (rot_inv ?c)) = 1"
    using r c by (simp add: qnorm_compose_quat qnorm_rot_inv)
  ultimately show ?thesis by blast
qed

text \<open>
  Claim C7, as the code has it. For a raw and a calibration quaternion that
  \<open>Rotation.from_quat\<close> accepts, the triple that the calibration step computes is
  \<open>as_euler('xyz', degrees=True)\<close> of the calibrated rotation: an extrinsic x-y-z triple, in
  degrees. Away from gimbal lock, turning by the first angle about the fixed \<open>x\<close> axis, then by
  the second about the fixed \<open>y\<close> axis, then by the third about the fixed \<open>z\<close> axis gives the
  calibrated rotation.
\<close>

theorem C7_euler_triple_extrinsic:
  assumes "qnorm raw_q \<noteq> 0" "qnorm q_cal \<noteq> 0"
    and a: "apply_calibration raw_q q_cal = Inr (q_anatomical, angles)"
    and g: "\<not> gimbal_lock (to_scipy_quat q_anatomical)"
  shows "angles = as_euler_xyz_degrees (to_scipy_quat q_anatomical) \<and>
         extrinsic_xyz (deg2rad (vx angles), deg2rad (vy angles), deg2rad (vz angles))
           = as_matrix (to_scipy_quat q_anatomical)"
proof -
  obtain rot where r: "anatomical_rot raw_q q_cal = Inr rot" "qnorm rot = 1"
    using anatomical_rot_unit [OF assms(1,2)] by blast
  have qa: "q_anatomical = to_wxyz_quat rot" and an: "angles = as_euler_xyz_degrees rot"
    using a by (simp_all add: apply_calibration_def r(1))
  have s: "to_scipy_quat q_anatomical = rot" by (simp add: qa to_scipy_to_wxyz)
  obtain e1 e2 e3 where e: "as_euler_xyz rot = (e1, e2, e3)" by (cases "as_euler_xyz rot")
  have "extrinsic_xyz (as_euler_xyz rot) = as_matrix rot"
    using r(2) g by (intro as_euler_xyz_extrinsic) (simp_all add: s)
  then show ?thesis
    by (simp add: s an as_euler_xyz_degrees_def e deg2rad_rad2deg)
qed

theorem C7_euler_triple_extrinsic_witness:
  "(90, 0, 90) = as_euler_xyz_degrees (to_scipy_quat (1 / 2, 1 / 2, 1 / 2, 1 / 2)) \<and>
   extrinsic_xyz (deg2rad (vx (90, 0, 90)), deg2rad (vy (90, 0, 90)), deg2rad (vz (90, 0, 90)))
     = as_matrix (to_scipy_quat (1 / 2, 1 / 2, 1 / 2, 1 / 2))"
proof -
  have a: "apply_calibration (1 / 2, 1 / 2, 1 / 2, 1 / 2) (1, 0, 0, 0)
     = Inr ((1 / 2, 1 / 2, 1 / 2, 1 / 2), (90, 0, 90))"
    by (rule example_apply_calibration)
  have g: "\<not> gimbal_lock (to_scipy_quat (1 / 2, 1 / 2, 1 / 2, 1 / 2))"
    using eps_lt_pi by (simp add: gimbal_lock_def)
  have n: "qnorm (1 / 2, 1 / 2, 1 / 2, 1 / 2) \<noteq> 0" "qnorm (1, 0, 0, 0) \<noteq> 0" by simp_all
  show ?thesis using C7_euler_triple_extrinsic [OF n a g] .
qed

end
